theory Spec2Isabelle
  imports Main
begin

section \<open>Data model of \<open>src/actions/sources/newSources.js\<close>\<close>

text \<open>
  A \<open>Source\<close> as \<open>createOriginalSource\<close> builds it and as the thunks read it. The field
  \<open>id\<close> is written \<open>id_src\<close> (HOL has a constant \<open>id\<close>). \<open>url\<close> and \<open>sourceMapURL\<close>
  may be missing from the JavaScript object: \<open>None\<close> is \<open>undefined\<close>/\<open>null\<close>.
\<close>

datatype loadedState = Unloaded | Loading | Loaded

record source =
  id_src :: string
  url :: "string option"
  isPrettyPrinted :: bool
  isWasm :: bool
  isBlackBoxed :: bool
  loadedState :: loadedState
  sourceMapURL :: "string option"

text \<open>
  The pending selected location \<open>{ url, line, column }\<close>; \<open>checkSelectedSource\<close> spreads
  it and adds \<open>sourceId\<close>.
\<close>

record location =
  loc_url :: "string option"
  loc_line :: "nat option"
  loc_column :: "nat option"
  loc_sourceId :: "string option"

text \<open>JavaScript truthiness of an optional string: \<open>undefined\<close>, \<open>null\<close> and \<open>""\<close> are falsy.\<close>

fun truthy :: "string option \<Rightarrow> bool" where
  "truthy None = False"
| "truthy (Some s) = (s \<noteq> [])"

text \<open>The two plain actions this module hands to the store.\<close>

datatype action = ADD_SOURCES "source list" | UPDATE_SOURCE source

text \<open>
  Thunks of other modules that this module dispatches, always under \<open>await\<close>:
  \<open>togglePrettyPrint(id)\<close>, \<open>selectLocation(location)\<close>, \<open>loadSourceText(source)\<close>,
  \<open>syncBreakpoint(sourceId, pendingBreakpoint)\<close>. A pending breakpoint is opaque here
  (type \<open>'b\<close>).
\<close>

datatype 'b thunk_ext =
    TogglePrettyPrint string
  | SelectLocation location
  | LoadSourceText source
  | SyncBreakpoint string 'b

text \<open>
  The value a thunk's promise is fulfilled with: every \<open>return\<close> of this module returns
  \<open>undefined\<close>; \<open>Sources\<close> is an array of sources, the value \<open>loadSourceMaps\<close> is written
  to flatten.
\<close>

datatype result = Undefined | Sources "source list"

text \<open>
  How a promise ends: fulfilled, rejected (a thrown error), or not settled. \<open>Pending\<close>
  is also what a call cut off by the recursion bound of \<open>newSources\<close> reports.
\<close>

datatype 'a outcome = Resolved 'a | Rejected string | Pending

text \<open>\<open>await dispatch(t)\<close> is \<open>Awaited\<close>, a bare \<open>dispatch(t)\<close> whose promise is dropped is \<open>Detached\<close>.\<close>

datatype mode = Awaited | Detached

datatype thunk =
    NewSource "source option"
  | NewSources "source option list"
  | LoadSourceMaps "source list"
  | LoadSourceMap string
  | CheckSelectedSource string
  | CheckPendingBreakpoints string

text \<open>
  What a thunk does, in program order: a plain action given to the store, an awaited thunk
  of another module, the awaited resolver call, \<open>console.error\<close>, and a dispatched thunk of
  this module with the events of its own body and the outcome of its promise.
\<close>

datatype 'b event =
    Dispatch action
  | Await "'b thunk_ext"
  | GetOriginalURLs source
  | ConsoleError string
  | Thunk mode thunk "'b event list" "result outcome"

text \<open>
  Everything the module imports. The selectors and the reducer belong to the store
  (\<open>'st\<close> is its state); \<open>isGeneratedId\<close>, \<open>generatedToOriginalId\<close> and \<open>getOriginalURLs\<close>
  belong to the source-map service; \<open>getRawSourceURL\<close> and \<open>isPrettyURL\<close> to
  \<open>utils/source\<close>. \<open>getSource\<close> yields \<open>None\<close> for \<open>undefined\<close>;
  \<open>getPendingBreakpointsForSource\<close> yields the values of the pending-breakpoint map in
  its iteration order; \<open>getOriginalURLs\<close> throws (\<open>Inl\<close>) or returns a list or
  \<open>null\<close>/\<open>undefined\<close>; \<open>external\<close> runs a thunk of another module on the store.
\<close>

record ('st, 'b) env =
  getSource :: "'st \<Rightarrow> string \<Rightarrow> source option"
  getPendingSelectedLocation :: "'st \<Rightarrow> location option"
  getPendingBreakpointsForSource :: "'st \<Rightarrow> string option \<Rightarrow> 'b list"
  reducer :: "'st \<Rightarrow> action \<Rightarrow> 'st"
  external :: "'b thunk_ext \<Rightarrow> 'st \<Rightarrow> 'st \<times> result outcome"
  isGeneratedId :: "string \<Rightarrow> bool"
  generatedToOriginalId :: "string \<Rightarrow> string \<Rightarrow> string"
  getOriginalURLs :: "source \<Rightarrow> string + string list option"
  getRawSourceURL :: "string \<Rightarrow> string"
  isPrettyURL :: "string \<Rightarrow> bool"

text \<open>
  A thunk maps the store's state to its events, the state it leaves and the outcome of
  its promise. The model is sequential: a dispatched thunk, awaited or not, is run to its
  end at the point of its dispatch, and the caller's next statement sees the state it
  leaves. The \<open>mode\<close> of its event records whether the caller's promise waits for it;
  the outcome of a \<open>Detached\<close> thunk reaches nobody.
\<close>

type_synonym ('st, 'b) run = "'st \<Rightarrow> 'b event list \<times> 'st \<times> result outcome"

text \<open>An \<open>async\<close> function that falls off its end after an \<open>await\<close>: it returns \<open>undefined\<close>
  unless the awaited promise was rejected or never settles.\<close>

fun returnUndefined :: "result outcome \<Rightarrow> result outcome" where
  "returnUndefined (Resolved v) = Resolved Undefined"
| "returnUndefined (Rejected e) = Rejected e"
| "returnUndefined Pending = Pending"

section \<open>The thunks\<close>

definition createOriginalSource :: "('st, 'b) env \<Rightarrow> string \<Rightarrow> source \<Rightarrow> source" where
  "createOriginalSource sourceMaps originalUrl generatedSource =
     \<lparr> id_src = generatedToOriginalId sourceMaps (id_src generatedSource) originalUrl,
       url = Some originalUrl,
       isPrettyPrinted = False,
       isWasm = False,
       isBlackBoxed = False,
       loadedState = Unloaded,
       sourceMapURL = None \<rparr>"

text \<open>
  \<open>loadSourceMap(sourceId)\<close>. \<open>getSource(...).toJS()\<close> throws a TypeError when the source
  is not in the store. The reference to \<open>newSources\<close> is the parameter
  \<open>dispatchNewSources\<close>; the recursion is closed in \<open>newSources\<close> below.
\<close>

definition loadSourceMap ::
  "('st, 'b) env \<Rightarrow> (source option list \<Rightarrow> ('st, 'b) run) \<Rightarrow> string \<Rightarrow> ('st, 'b) run" where
  "loadSourceMap e dispatchNewSources sourceId st =
     (case getSource e st sourceId of
        None \<Rightarrow> ([], st, Rejected ''TypeError'')
      | Some source \<Rightarrow>
          if \<not> isGeneratedId e (id_src source) \<or> \<not> truthy (sourceMapURL source)
          then ([], st, Resolved Undefined)
          else
            let (logged, urls) =
                  (case getOriginalURLs e source of
                     Inl err \<Rightarrow> ([ConsoleError err], None)
                   | Inr r \<Rightarrow> ([], r))
            in (case urls of
                  None \<Rightarrow>
                    let update = UPDATE_SOURCE (source\<lparr>sourceMapURL := Some []\<rparr>)
                    in (GetOriginalURLs source # logged @ [Dispatch update],
                        reducer e st update, Resolved Undefined)
                | Some us \<Rightarrow>
                    let originalSources = map (\<lambda>u. createOriginalSource e u source) us;
                        (evs, st', out) = dispatchNewSources (map Some originalSources) st
                    in ([GetOriginalURLs source,
                         Thunk Detached (NewSources (map Some originalSources)) evs out],
                        st', Resolved Undefined)))"

text \<open>\<open>checkSelectedSource(sourceId)\<close>.\<close>

definition checkSelectedSource :: "('st, 'b) env \<Rightarrow> string \<Rightarrow> ('st, 'b) run" where
  "checkSelectedSource e sourceId st =
     (case getSource e st sourceId of
        None \<Rightarrow> ([], st, Rejected ''TypeError'')
      | Some source \<Rightarrow>
          (case getPendingSelectedLocation e st of
             None \<Rightarrow> ([], st, Resolved Undefined)
           | Some pendingLocation \<Rightarrow>
               (case loc_url pendingLocation of
                  None \<Rightarrow> ([], st, Resolved Undefined)
                | Some pendingUrl \<Rightarrow>
                    if pendingUrl = [] \<or> \<not> truthy (url source)
                    then ([], st, Resolved Undefined)
                    else
                      let rawPendingUrl = getRawSourceURL e pendingUrl
                      in if Some rawPendingUrl = url source
                         then if isPrettyURL e pendingUrl
                              then let call = TogglePrettyPrint (id_src source);
                                       (st', out) = external e call st
                                   in ([Await call], st', out)
                              else let call = SelectLocation
                                         (pendingLocation\<lparr>loc_sourceId := Some (id_src source)\<rparr>);
                                       (st', out) = external e call st
                                   in ([Await call], st', returnUndefined out)
                         else ([], st, Resolved Undefined))))"

text \<open>The \<open>for\<close> loop of \<open>checkPendingBreakpoints\<close>: an awaited \<open>syncBreakpoint\<close> that
  rejects ends the loop.\<close>

fun syncBreakpoints :: "('st, 'b) env \<Rightarrow> string \<Rightarrow> 'b list \<Rightarrow> ('st, 'b) run" where
  "syncBreakpoints e sourceId [] st = ([], st, Resolved Undefined)"
| "syncBreakpoints e sourceId (pendingBreakpoint # rest) st =
     (let call = SyncBreakpoint sourceId pendingBreakpoint;
          (st', out) = external e call st
      in case out of
           Resolved v \<Rightarrow>
             (let (evs, st'', out') = syncBreakpoints e sourceId rest st'
              in (Await call # evs, st'', out'))
         | Rejected err \<Rightarrow> ([Await call], st', Rejected err)
         | Pending \<Rightarrow> ([Await call], st', Pending))"

text \<open>\<open>checkPendingBreakpoints(sourceId)\<close>. \<open>source.get("url")\<close> throws a TypeError when
  the source is not in the store.\<close>

definition checkPendingBreakpoints :: "('st, 'b) env \<Rightarrow> string \<Rightarrow> ('st, 'b) run" where
  "checkPendingBreakpoints e sourceId st =
     (case getSource e st sourceId of
        None \<Rightarrow> ([], st, Rejected ''TypeError'')
      | Some source \<Rightarrow>
          let pendingBreakpoints = getPendingBreakpointsForSource e st (url source)
          in if length pendingBreakpoints = 0
             then ([], st, Resolved Undefined)
             else
               let call = LoadSourceText source;
                   (st', out) = external e call st
               in (case out of
                     Resolved v \<Rightarrow>
                       (let (evs, st'', out') = syncBreakpoints e sourceId pendingBreakpoints st'
                        in (Await call # evs, st'', out'))
                   | Rejected err \<Rightarrow> ([Await call], st', Rejected err)
                   | Pending \<Rightarrow> ([Await call], st', Pending)))"

text \<open>
  \<open>sources.map(source => dispatch(loadSourceMap(source.id)))\<close>: every thunk is started, in
  order; the list of their promises goes to \<open>Promise.all\<close>.
\<close>

fun dispatchLoadSourceMap ::
  "('st, 'b) env \<Rightarrow> (source option list \<Rightarrow> ('st, 'b) run) \<Rightarrow> source list \<Rightarrow> 'st
     \<Rightarrow> 'b event list \<times> 'st \<times> result outcome list" where
  "dispatchLoadSourceMap e dispatchNewSources [] st = ([], st, [])"
| "dispatchLoadSourceMap e dispatchNewSources (source # rest) st =
     (let (evs, st', out) = loadSourceMap e dispatchNewSources (id_src source) st;
          (evs', st'', outs) = dispatchLoadSourceMap e dispatchNewSources rest st'
      in (Thunk Awaited (LoadSourceMap (id_src source)) evs out # evs', st'', out # outs))"

text \<open>\<open>Promise.all\<close>: rejected as soon as one promise is, fulfilled with all the values
  when all are.\<close>

fun promiseAll :: "'a outcome list \<Rightarrow> 'a list outcome" where
  "promiseAll [] = Resolved []"
| "promiseAll (Resolved v # rest) =
     (case promiseAll rest of
        Resolved vs \<Rightarrow> Resolved (v # vs)
      | Rejected err \<Rightarrow> Rejected err
      | Pending \<Rightarrow> Pending)"
| "promiseAll (Rejected err # rest) = Rejected err"
| "promiseAll (Pending # rest) =
     (case promiseAll rest of
        Rejected err \<Rightarrow> Rejected err
      | _ \<Rightarrow> Pending)"

text \<open>lodash's \<open>flatten\<close>, one level deep, on the values a promise of this module can
  carry: an array is spliced in, anything else is kept as the entry it is.\<close>

fun flatten :: "result list \<Rightarrow> source option list" where
  "flatten [] = []"
| "flatten (Undefined # rest) = None # flatten rest"
| "flatten (Sources ss # rest) = map Some ss @ flatten rest"

text \<open>\<open>loadSourceMaps(sources)\<close>.\<close>

definition loadSourceMaps ::
  "('st, 'b) env \<Rightarrow> (source option list \<Rightarrow> ('st, 'b) run) \<Rightarrow> source list \<Rightarrow> ('st, 'b) run" where
  "loadSourceMaps e dispatchNewSources sources st =
     (let (evs, st', outs) = dispatchLoadSourceMap e dispatchNewSources sources st
      in case promiseAll outs of
           Resolved originalSources \<Rightarrow>
             (let arg = flatten originalSources;
                  (evs', st'', out) = dispatchNewSources arg st'
              in (evs @ [Thunk Awaited (NewSources arg) evs' out], st'', returnUndefined out))
         | Rejected err \<Rightarrow> (evs, st', Rejected err)
         | Pending \<Rightarrow> (evs, st', Pending))"

text \<open>The callback of \<open>sources.filter\<close> in \<open>newSources\<close>:
  \<open>source && !getSource(getState(), source.id)\<close>.\<close>

fun isNewSource :: "('st, 'b) env \<Rightarrow> 'st \<Rightarrow> source option \<Rightarrow> bool" where
  "isNewSource e st None = False"
| "isNewSource e st (Some source) = (getSource e st (id_src source) = None)"

fun filterSources :: "('st, 'b) env \<Rightarrow> 'st \<Rightarrow> source option list \<Rightarrow> source list" where
  "filterSources e st [] = []"
| "filterSources e st (None # rest) = filterSources e st rest"
| "filterSources e st (Some source # rest) =
     (if isNewSource e st (Some source)
      then source # filterSources e st rest
      else filterSources e st rest)"

text \<open>The \<open>for\<close> loop of \<open>newSources\<close>: two thunks per source, neither awaited.\<close>

fun checkSources ::
  "('st, 'b) env \<Rightarrow> source list \<Rightarrow> 'st \<Rightarrow> 'b event list \<times> 'st" where
  "checkSources e [] st = ([], st)"
| "checkSources e (source # rest) st =
     (let (evs1, st1, out1) = checkSelectedSource e (id_src source) st;
          (evs2, st2, out2) = checkPendingBreakpoints e (id_src source) st1;
          (evs, st3) = checkSources e rest st2
      in (Thunk Detached (CheckSelectedSource (id_src source)) evs1 out1
          # Thunk Detached (CheckPendingBreakpoints (id_src source)) evs2 out2
          # evs, st3))"

text \<open>The body of \<open>newSources(sources)\<close>, with the \<open>newSources\<close> that \<open>loadSourceMaps\<close>
  and \<open>loadSourceMap\<close> dispatch as a parameter.\<close>

definition newSourcesBody ::
  "('st, 'b) env \<Rightarrow> (source option list \<Rightarrow> ('st, 'b) run) \<Rightarrow> source option list
     \<Rightarrow> ('st, 'b) run" where
  "newSourcesBody e dispatchNewSources sources st =
     (let filteredSources = filterSources e st sources
      in if length filteredSources = 0
         then ([], st, Resolved Undefined)
         else
           let st1 = reducer e st (ADD_SOURCES filteredSources);
               (checks, st2) = checkSources e filteredSources st1;
               (evs, st3, out) = loadSourceMaps e dispatchNewSources filteredSources st2
           in (Dispatch (ADD_SOURCES filteredSources)
               # checks @ [Thunk Awaited (LoadSourceMaps filteredSources) evs out],
               st3, returnUndefined out))"

text \<open>
  \<open>newSources\<close>: the recursion through \<open>loadSourceMaps\<close> and \<open>loadSourceMap\<close> has no bound
  in the source (a store and a resolver can keep producing generated sources with a
  source map), so the depth of nested \<open>newSources\<close> calls is bounded by the first
  argument; a call beyond the bound is cut off and reported as \<open>Pending\<close>.
\<close>

primrec newSources ::
  "('st, 'b) env \<Rightarrow> nat \<Rightarrow> source option list \<Rightarrow> ('st, 'b) run" where
  "newSources e 0 = (\<lambda>sources st. ([], st, Pending))"
| "newSources e (Suc n) = newSourcesBody e (newSources e n)"

text \<open>\<open>newSource(source)\<close>.\<close>

definition newSource :: "('st, 'b) env \<Rightarrow> nat \<Rightarrow> source option \<Rightarrow> ('st, 'b) run" where
  "newSource e n source st =
     (let (evs, st', out) = newSources e n [source] st
      in ([Thunk Awaited (NewSources [source]) evs out], st', returnUndefined out))"

section \<open>Reading a run\<close>

text \<open>The plain actions a thunk's own body gives to the store, in order (what the thunks
  it dispatches give to the store is inside their \<open>Thunk\<close> events).\<close>

fun dispatched :: "'b event list \<Rightarrow> action list" where
  "dispatched [] = []"
| "dispatched (Dispatch a # evs) = a # dispatched evs"
| "dispatched (Await c # evs) = dispatched evs"
| "dispatched (GetOriginalURLs s # evs) = dispatched evs"
| "dispatched (ConsoleError m # evs) = dispatched evs"
| "dispatched (Thunk m t body out # evs) = dispatched evs"

text \<open>The thunks of this module that a body dispatches under \<open>await\<close>, in order.\<close>

fun awaitedThunks :: "'b event list \<Rightarrow> thunk list" where
  "awaitedThunks [] = []"
| "awaitedThunks (Thunk Awaited t body out # evs) = t # awaitedThunks evs"
| "awaitedThunks (Thunk Detached t body out # evs) = awaitedThunks evs"
| "awaitedThunks (Dispatch a # evs) = awaitedThunks evs"
| "awaitedThunks (Await c # evs) = awaitedThunks evs"
| "awaitedThunks (GetOriginalURLs s # evs) = awaitedThunks evs"
| "awaitedThunks (ConsoleError m # evs) = awaitedThunks evs"

text \<open>Everything a run does, the thunks of this module opened up.\<close>

fun effects :: "'b event \<Rightarrow> 'b event list" where
  "effects (Thunk m t body out) = concat (map effects body)"
| "effects (Dispatch a) = [Dispatch a]"
| "effects (Await c) = [Await c]"
| "effects (GetOriginalURLs s) = [GetOriginalURLs s]"
| "effects (ConsoleError m) = [ConsoleError m]"

definition allEffects :: "'b event list \<Rightarrow> 'b event list" where
  "allEffects evs = concat (map effects evs)"

text \<open>
  What the promise of a run waits for: its own body and, recursively, the thunks it
  dispatches under \<open>await\<close>. The promise of a \<open>Detached\<close> thunk is dropped, so nothing
  in the code makes the caller wait for that thunk to complete.
\<close>

fun awaited :: "'b event \<Rightarrow> 'b event list" where
  "awaited (Thunk Awaited t body out) = concat (map awaited body)"
| "awaited (Thunk Detached t body out) = []"
| "awaited (Dispatch a) = [Dispatch a]"
| "awaited (Await c) = [Await c]"
| "awaited (GetOriginalURLs s) = [GetOriginalURLs s]"
| "awaited (ConsoleError m) = [ConsoleError m]"

definition awaitedEffects :: "'b event list \<Rightarrow> 'b event list" where
  "awaitedEffects evs = concat (map awaited evs)"

text \<open>The batches of the \<open>ADD_SOURCES\<close> actions among some effects, in order.\<close>

fun registrations :: "'b event list \<Rightarrow> source list list" where
  "registrations [] = []"
| "registrations (Dispatch (ADD_SOURCES ss) # evs) = ss # registrations evs"
| "registrations (Dispatch (UPDATE_SOURCE s) # evs) = registrations evs"
| "registrations (Await c # evs) = registrations evs"
| "registrations (GetOriginalURLs s # evs) = registrations evs"
| "registrations (ConsoleError m # evs) = registrations evs"
| "registrations (Thunk m t body out # evs) = registrations evs"

section \<open>A store and a source-map service for concrete runs\<close>

text \<open>
  Modelled from the spec: the store's reducer and selectors and the helpers of
  \<open>utils/source\<close> are outside this module. The registry is the list of the sources
  added so far: \<open>ADD_SOURCES\<close> appends its batch, \<open>UPDATE_SOURCE\<close> replaces the record of
  the same id, \<open>getSource\<close> finds a record by id. The pending selected location, the
  pending breakpoints (pairs of a URL and a breakpoint) and the resolver are arguments.
  Thunks of other modules leave the store as it is. An original id is a generated id
  followed by \<open>/originalSource-\<close> and the URL; a pretty URL ends in \<open>:formatted\<close>.
\<close>

fun isOriginalId :: "string \<Rightarrow> bool" where
  "isOriginalId [] = False"
| "isOriginalId (c # cs) = (take 15 (c # cs) = ''/originalSource'' \<or> isOriginalId cs)"

definition endsFormatted :: "string \<Rightarrow> bool" where
  "endsFormatted u = (10 \<le> length u \<and> drop (length u - 10) u = '':formatted'')"

fun registryReducer :: "source list \<Rightarrow> action \<Rightarrow> source list" where
  "registryReducer st (ADD_SOURCES ss) = st @ ss"
| "registryReducer st (UPDATE_SOURCE s) = map (\<lambda>t. if id_src t = id_src s then s else t) st"

definition registryEnv ::
  "location option \<Rightarrow> (string \<times> nat) list \<Rightarrow> (source \<Rightarrow> string + string list option)
     \<Rightarrow> (source list, nat) env" where
  "registryEnv pending breakpoints resolver =
     \<lparr> getSource = (\<lambda>st i. find (\<lambda>s. id_src s = i) st),
       getPendingSelectedLocation = (\<lambda>st. pending),
       getPendingBreakpointsForSource =
         (\<lambda>st u. map snd (filter (\<lambda>p. Some (fst p) = u) breakpoints)),
       reducer = registryReducer,
       external = (\<lambda>call st. (st, Resolved Undefined)),
       isGeneratedId = (\<lambda>i. \<not> isOriginalId i),
       generatedToOriginalId = (\<lambda>g u. g @ ''/originalSource-'' @ u),
       getOriginalURLs = resolver,
       getRawSourceURL = (\<lambda>u. if endsFormatted u then take (length u - 10) u else u),
       isPrettyURL = endsFormatted \<rparr>"

text \<open>Sources and resolvers of the concrete runs: two plain scripts, a bundle with a
  source map, and the original source the map names.\<close>

definition scriptA :: source where
  "scriptA = \<lparr> id_src = ''a'', url = Some ''a.js'', isPrettyPrinted = False, isWasm = False,
               isBlackBoxed = False, loadedState = Unloaded, sourceMapURL = None \<rparr>"

definition scriptB :: source where
  "scriptB = \<lparr> id_src = ''b'', url = Some ''b.js'', isPrettyPrinted = False, isWasm = False,
               isBlackBoxed = False, loadedState = Unloaded, sourceMapURL = None \<rparr>"

definition bundleG :: source where
  "bundleG = \<lparr> id_src = ''g'', url = Some ''bundle.js'', isPrettyPrinted = False,
              isWasm = False, isBlackBoxed = False, loadedState = Unloaded,
              sourceMapURL = Some ''bundle.js.map'' \<rparr>"

definition origOfBundle :: source where
  "origOfBundle = \<lparr> id_src = ''g/originalSource-orig.js'', url = Some ''orig.js'',
                    isPrettyPrinted = False, isWasm = False, isBlackBoxed = False,
                    loadedState = Unloaded, sourceMapURL = None \<rparr>"

definition resolvesToOrig :: "source \<Rightarrow> string + string list option" where
  "resolvesToOrig s = Inr (Some [''orig.js''])"

definition resolverThrows :: "source \<Rightarrow> string + string list option" where
  "resolverThrows s = Inl ''fetch failed''"



section \<open>Registration of a batch\<close>

lemma dispatched_append: "dispatched (xs @ ys) = dispatched xs @ dispatched ys"
  by (induction xs rule: dispatched.induct) simp_all

lemma dispatched_checkSources_aux:
  "checkSources e ss st = (evs, st') \<Longrightarrow> dispatched evs = []"
  by (induction ss arbitrary: st evs st') (auto simp: Let_def split: prod.splits)

lemma dispatched_checkSources: "dispatched (fst (checkSources e ss st)) = []"
  by (cases "checkSources e ss st") (simp add: dispatched_checkSources_aux)

lemma filterSources_filter:
  "map Some (filterSources e st sources) = filter (isNewSource e st) sources"
  by (induction e st sources rule: filterSources.induct) simp_all

lemma isNewSource_iff:
  "isNewSource e st c \<longleftrightarrow> c \<noteq> None \<and> (\<forall>s. c = Some s \<longrightarrow> getSource e st (id_src s) = None)"
  by (cases c) simp_all

lemma newSources_empty:
  "filterSources e st sources = [] \<Longrightarrow> newSources e (Suc n) sources st = ([], st, Resolved Undefined)"
  by (simp add: newSourcesBody_def)

lemma newSources_nonempty:
  assumes "filterSources e st sources \<noteq> []"
  shows "\<exists>rest st' out. newSources e (Suc n) sources st =
           (Dispatch (ADD_SOURCES (filterSources e st sources)) # rest, st', out)
         \<and> dispatched rest = []"
proof -
  obtain checks st2 where c: "checkSources e (filterSources e st sources)
      (reducer e st (ADD_SOURCES (filterSources e st sources))) = (checks, st2)"
    by (cases "checkSources e (filterSources e st sources)
      (reducer e st (ADD_SOURCES (filterSources e st sources)))")
  obtain evs st3 out where l: "loadSourceMaps e (newSources e n) (filterSources e st sources) st2 = (evs, st3, out)"
    by (cases "loadSourceMaps e (newSources e n) (filterSources e st sources) st2")
  have d: "dispatched checks = []"
    using dispatched_checkSources[of e "filterSources e st sources"
        "reducer e st (ADD_SOURCES (filterSources e st sources))"] c by simp
  show ?thesis
    using assms c l d by (simp add: newSourcesBody_def Let_def dispatched_append)
qed

text \<open>
  C1. \<open>newSources\<close> keeps, in their order, exactly the candidates that are not
  \<open>null\<close>/\<open>undefined\<close> and whose id \<open>getSource\<close> does not find in the state the call
  starts in. When none is left the thunk returns at once: no event, the state untouched.
  Otherwise the first thing it does is to dispatch \<open>ADD_SOURCES\<close> with the whole
  filtered list, and that is the only plain action its body gives to the store (the rest
  of the body dispatches thunks).
\<close>

theorem newSources_filters_then_adds_once:
  "map Some (filterSources e st sources) =
     filter (\<lambda>c. c \<noteq> None \<and> (\<forall>s. c = Some s \<longrightarrow> getSource e st (id_src s) = None)) sources
   \<and> (filterSources e st sources = [] \<longrightarrow>
        newSources e (Suc n) sources st = ([], st, Resolved Undefined))
   \<and> (filterSources e st sources \<noteq> [] \<longrightarrow>
        (\<exists>rest st' out.
           newSources e (Suc n) sources st =
             (Dispatch (ADD_SOURCES (filterSources e st sources)) # rest, st', out)
           \<and> dispatched rest = []))"
proof (intro conjI impI)
  have "filter (isNewSource e st) sources =
     filter (\<lambda>c. c \<noteq> None \<and> (\<forall>s. c = Some s \<longrightarrow> getSource e st (id_src s) = None)) sources"
    by (rule filter_cong) (simp_all add: isNewSource_iff)
  then show "map Some (filterSources e st sources) =
     filter (\<lambda>c. c \<noteq> None \<and> (\<forall>s. c = Some s \<longrightarrow> getSource e st (id_src s) = None)) sources"
    by (simp add: filterSources_filter)
next
  assume "filterSources e st sources = []"
  then show "newSources e (Suc n) sources st = ([], st, Resolved Undefined)"
    by (rule newSources_empty)
next
  assume "filterSources e st sources \<noteq> []"
  then show "\<exists>rest st' out.
           newSources e (Suc n) sources st =
             (Dispatch (ADD_SOURCES (filterSources e st sources)) # rest, st', out)
           \<and> dispatched rest = []"
    by (rule newSources_nonempty)
qed

theorem newSources_filters_then_adds_once_witness:
  "filterSources (registryEnv None [] resolvesToOrig) [scriptA] [Some scriptA, None, Some scriptB] = [scriptB]
   \<and> newSources (registryEnv None [] resolvesToOrig) (Suc 0) [Some scriptA, None] [scriptA] = ([], [scriptA], Resolved Undefined)
   \<and> (\<exists>rest st' out.
         newSources (registryEnv None [] resolvesToOrig) (Suc 0) [Some scriptA, None, Some scriptB] [scriptA] =
           (Dispatch (ADD_SOURCES [scriptB]) # rest, st', out)
         \<and> dispatched rest = [])"
proof -
  let ?e = "registryEnv None [] resolvesToOrig"
  have f1: "filterSources ?e [scriptA] [Some scriptA, None, Some scriptB] = [scriptB]"
    by code_simp
  have f2: "filterSources ?e [scriptA] [Some scriptA, None] = []"
    by code_simp
  note t1 = newSources_filters_then_adds_once
              [of ?e "[scriptA]" "[Some scriptA, None, Some scriptB]" 0, unfolded f1]
  note t2 = newSources_filters_then_adds_once
              [of ?e "[scriptA]" "[Some scriptA, None]" 0, unfolded f2]
  from t1 have a: "\<exists>rest st' out.
         newSources ?e (Suc 0) [Some scriptA, None, Some scriptB] [scriptA] =
           (Dispatch (ADD_SOURCES [scriptB]) # rest, st', out)
         \<and> dispatched rest = []"
    by blast
  from t2 have b: "newSources ?e (Suc 0) [Some scriptA, None] [scriptA] = ([], [scriptA], Resolved Undefined)"
    by blast
  from f1 a b show ?thesis by blast
qed

text \<open>
  C2 (as stated). With A and B both new, the claim has \<open>newSources [A, B, A]\<close> dispatch
  \<open>ADD_SOURCES [A, B]\<close>. The filter reads the state in which the call starts; the
  \<open>ADD_SOURCES\<close> dispatch comes after the whole filter, so the second A is new as well.
\<close>

theorem newSources_ABA_counterexample:
  "getSource (registryEnv None [] resolvesToOrig) [] (id_src scriptA) = None
   \<and> getSource (registryEnv None [] resolvesToOrig) [] (id_src scriptB) = None
   \<and> dispatched (fst (newSources (registryEnv None [] resolvesToOrig) 2
                        [Some scriptA, Some scriptB, Some scriptA] []))
       = [ADD_SOURCES [scriptA, scriptB, scriptA]]
   \<and> dispatched (fst (newSources (registryEnv None [] resolvesToOrig) 2
                        [Some scriptA, Some scriptB, Some scriptA] []))
       \<noteq> [ADD_SOURCES [scriptA, scriptB]]"
  by code_simp

text \<open>
  C2 (amended). For a batch \<open>[A, B, A]\<close> with A and B not in the registry when the call
  starts, \<open>newSources\<close> dispatches one \<open>ADD_SOURCES\<close> with \<open>[A, B, A]\<close>: a duplicate inside
  the batch passes the filter.
\<close>

theorem newSources_keeps_intra_batch_duplicate:
  assumes "getSource e st (id_src A) = None" and "getSource e st (id_src B) = None"
  shows "\<exists>rest st' out.
           newSources e (Suc n) [Some A, Some B, Some A] st =
             (Dispatch (ADD_SOURCES [A, B, A]) # rest, st', out)
           \<and> dispatched rest = []"
proof -
  have f: "filterSources e st [Some A, Some B, Some A] = [A, B, A]"
    by (simp add: assms)
  have "filterSources e st [Some A, Some B, Some A] \<noteq> []"
    unfolding f by simp
  from newSources_nonempty[OF this, of n] show ?thesis
    by (simp only: f)
qed

theorem newSources_keeps_intra_batch_duplicate_witness:
  "getSource (registryEnv None [] resolvesToOrig) [] (id_src scriptA) = None
   \<and> getSource (registryEnv None [] resolvesToOrig) [] (id_src scriptB) = None
   \<and> (\<exists>rest st' out.
         newSources (registryEnv None [] resolvesToOrig) (Suc 0)
           [Some scriptA, Some scriptB, Some scriptA] [] =
             (Dispatch (ADD_SOURCES [scriptA, scriptB, scriptA]) # rest, st', out)
         \<and> dispatched rest = [])"
proof -
  let ?e = "registryEnv None [] resolvesToOrig"
  have a: "getSource ?e [] (id_src scriptA) = None" by code_simp
  have b: "getSource ?e [] (id_src scriptB) = None" by code_simp
  from a b newSources_keeps_intra_batch_duplicate[OF a b, of 0] show ?thesis
    by blast
qed

section \<open>Source maps of one source\<close>

text \<open>
  C6. When the source read from the store has an id that is not a generated id, or has no
  \<open>sourceMapURL\<close> (missing or empty), \<open>loadSourceMap\<close> returns \<open>undefined\<close> with no event
  at all: no resolver call, no \<open>UPDATE_SOURCE\<close>, the state untouched.
\<close>

theorem loadSourceMap_without_map_does_nothing:
  assumes "getSource e st sourceId = Some source"
      and "\<not> isGeneratedId e (id_src source) \<or> \<not> truthy (sourceMapURL source)"
  shows "loadSourceMap e dispatchNewSources sourceId st = ([], st, Resolved Undefined)"
  using assms by (auto simp: loadSourceMap_def)

theorem loadSourceMap_without_map_does_nothing_witness:
  "getSource (registryEnv None [] resolvesToOrig) [scriptA, origOfBundle] ''a'' = Some scriptA
   \<and> \<not> truthy (sourceMapURL scriptA)
   \<and> loadSourceMap (registryEnv None [] resolvesToOrig)
        (newSources (registryEnv None [] resolvesToOrig) 1) ''a'' [scriptA, origOfBundle]
       = ([], [scriptA, origOfBundle], Resolved Undefined)"
proof -
  let ?e = "registryEnv None [] resolvesToOrig"
  have a: "getSource ?e [scriptA, origOfBundle] ''a'' = Some scriptA" by code_simp
  have b: "\<not> truthy (sourceMapURL scriptA)" by code_simp
  from b have c: "\<not> isGeneratedId ?e (id_src scriptA) \<or> \<not> truthy (sourceMapURL scriptA)" ..
  from a b loadSourceMap_without_map_does_nothing[OF a c, of "newSources ?e 1"]
  show ?thesis by blast
qed

text \<open>
  C4. For a generated source with a \<open>sourceMapURL\<close> whose resolver call throws,
  \<open>loadSourceMap\<close> calls the resolver, logs the error, dispatches one \<open>UPDATE_SOURCE\<close> with
  the source record and \<open>sourceMapURL\<close> set to the empty string, dispatches no
  \<open>newSources\<close> (no original source is registered) and returns \<open>undefined\<close>: its promise
  is fulfilled. When that is the state in which \<open>newSources\<close> on the one new source \<open>s\<close>
  reaches \<open>loadSourceMap\<close>, the promises of \<open>newSources\<close> and of \<open>newSource\<close> are
  fulfilled too.
\<close>

lemma loadSourceMap_throws:
  assumes "getSource e st sourceId = Some source"
      and "isGeneratedId e (id_src source)" and "truthy (sourceMapURL source)"
      and "getOriginalURLs e source = Inl err"
  shows "loadSourceMap e dispatchNewSources sourceId st =
           ([GetOriginalURLs source, ConsoleError err,
             Dispatch (UPDATE_SOURCE (source\<lparr>sourceMapURL := Some []\<rparr>))],
            reducer e st (UPDATE_SOURCE (source\<lparr>sourceMapURL := Some []\<rparr>)),
            Resolved Undefined)"
  using assms by (simp add: loadSourceMap_def Let_def)

lemma newSources_single_absorbs:
  assumes new: "getSource e st0 (id_src s) = None"
      and st: "snd (checkSources e [s] (reducer e st0 (ADD_SOURCES [s]))) = st"
      and l: "loadSourceMap e (newSources e (Suc n)) (id_src s) st = (evs, st', Resolved Undefined)"
  shows "snd (snd (newSources e (Suc (Suc n)) [Some s] st0)) = Resolved Undefined"
proof -
  have f: "filterSources e st0 [Some s] = [s]" using new by simp
  obtain checks where c: "checkSources e [s] (reducer e st0 (ADD_SOURCES [s])) = (checks, st)"
    using st by (cases "checkSources e [s] (reducer e st0 (ADD_SOURCES [s]))") simp
  have m: "loadSourceMaps e (newSources e (Suc n)) [s] st =
             ([Thunk Awaited (LoadSourceMap (id_src s)) evs (Resolved Undefined),
               Thunk Awaited (NewSources [None]) [] (Resolved Undefined)],
              st', Resolved Undefined)"
    using l by (simp add: loadSourceMaps_def newSourcesBody_def Let_def)
  show ?thesis
    unfolding newSources.simps(2)[of e "Suc n"] newSourcesBody_def
    by (simp add: f c m Let_def del: newSources.simps checkSources.simps)
qed

theorem resolver_failure_is_absorbed:
  assumes "getSource e st sourceId = Some source"
      and "isGeneratedId e (id_src source)" and "truthy (sourceMapURL source)"
      and "getOriginalURLs e source = Inl err"
  shows "loadSourceMap e dispatchNewSources sourceId st =
           ([GetOriginalURLs source, ConsoleError err,
             Dispatch (UPDATE_SOURCE (source\<lparr>sourceMapURL := Some []\<rparr>))],
            reducer e st (UPDATE_SOURCE (source\<lparr>sourceMapURL := Some []\<rparr>)),
            Resolved Undefined)
       \<and> (\<forall>s st0 n.
             id_src s = sourceId \<and> getSource e st0 (id_src s) = None
             \<and> snd (checkSources e [s] (reducer e st0 (ADD_SOURCES [s]))) = st
             \<longrightarrow> snd (snd (newSources e (Suc (Suc n)) [Some s] st0)) = Resolved Undefined
               \<and> snd (snd (newSource e (Suc (Suc n)) (Some s) st0)) = Resolved Undefined)"
proof (intro conjI allI impI)
  show "loadSourceMap e dispatchNewSources sourceId st =
           ([GetOriginalURLs source, ConsoleError err,
             Dispatch (UPDATE_SOURCE (source\<lparr>sourceMapURL := Some []\<rparr>))],
            reducer e st (UPDATE_SOURCE (source\<lparr>sourceMapURL := Some []\<rparr>)),
            Resolved Undefined)"
    by (rule loadSourceMap_throws[OF assms])
next
  fix s st0 n
  assume h: "id_src s = sourceId \<and> getSource e st0 (id_src s) = None
             \<and> snd (checkSources e [s] (reducer e st0 (ADD_SOURCES [s]))) = st"
  have l: "loadSourceMap e (newSources e (Suc n)) (id_src s) st =
           ([GetOriginalURLs source, ConsoleError err,
             Dispatch (UPDATE_SOURCE (source\<lparr>sourceMapURL := Some []\<rparr>))],
            reducer e st (UPDATE_SOURCE (source\<lparr>sourceMapURL := Some []\<rparr>)),
            Resolved Undefined)"
    using h loadSourceMap_throws[OF assms, of "newSources e (Suc n)"] by simp
  have r: "snd (snd (newSources e (Suc (Suc n)) [Some s] st0)) = Resolved Undefined"
    using h newSources_single_absorbs[OF _ _ l] by blast
  show "snd (snd (newSources e (Suc (Suc n)) [Some s] st0)) = Resolved Undefined"
    by (rule r)
  show "snd (snd (newSource e (Suc (Suc n)) (Some s) st0)) = Resolved Undefined"
    using r by (cases "newSources e (Suc (Suc n)) [Some s] st0")
      (simp add: newSource_def del: newSources.simps)
qed

theorem resolver_failure_is_absorbed_witness:
  "getSource (registryEnv None [] resolverThrows) [bundleG] ''g'' = Some bundleG
   \<and> isGeneratedId (registryEnv None [] resolverThrows) (id_src bundleG)
   \<and> truthy (sourceMapURL bundleG)
   \<and> getOriginalURLs (registryEnv None [] resolverThrows) bundleG = Inl ''fetch failed''
   \<and> loadSourceMap (registryEnv None [] resolverThrows)
        (newSources (registryEnv None [] resolverThrows) 1) ''g'' [bundleG] =
        ([GetOriginalURLs bundleG, ConsoleError ''fetch failed'',
          Dispatch (UPDATE_SOURCE (bundleG\<lparr>sourceMapURL := Some []\<rparr>))],
         [bundleG\<lparr>sourceMapURL := Some []\<rparr>], Resolved Undefined)
   \<and> snd (snd (newSources (registryEnv None [] resolverThrows) (Suc (Suc 0)) [Some bundleG] []))
       = Resolved Undefined
   \<and> snd (snd (newSource (registryEnv None [] resolverThrows) (Suc (Suc 0)) (Some bundleG) []))
       = Resolved Undefined"
proof -
  let ?e = "registryEnv None [] resolverThrows"
  have a: "getSource ?e [bundleG] ''g'' = Some bundleG" by code_simp
  have b: "isGeneratedId ?e (id_src bundleG)" by code_simp
  have c: "truthy (sourceMapURL bundleG)" by code_simp
  have d: "getOriginalURLs ?e bundleG = Inl ''fetch failed''" by code_simp
  have u: "reducer ?e [bundleG] (UPDATE_SOURCE (bundleG\<lparr>sourceMapURL := Some []\<rparr>))
             = [bundleG\<lparr>sourceMapURL := Some []\<rparr>]" by code_simp
  have i: "id_src bundleG = ''g''" by code_simp
  have n: "getSource ?e [] (id_src bundleG) = None" by code_simp
  have k: "snd (checkSources ?e [bundleG] (reducer ?e [] (ADD_SOURCES [bundleG]))) = [bundleG]"
    by code_simp
  note t = resolver_failure_is_absorbed[OF a b c d, of "newSources ?e 1", unfolded u]
  from t have t1: "loadSourceMap ?e (newSources ?e 1) ''g'' [bundleG] =
        ([GetOriginalURLs bundleG, ConsoleError ''fetch failed'',
          Dispatch (UPDATE_SOURCE (bundleG\<lparr>sourceMapURL := Some []\<rparr>))],
         [bundleG\<lparr>sourceMapURL := Some []\<rparr>], Resolved Undefined)"
    by blast
  from t i n k have t2:
    "snd (snd (newSources ?e (Suc (Suc 0)) [Some bundleG] [])) = Resolved Undefined
     \<and> snd (snd (newSource ?e (Suc (Suc 0)) (Some bundleG) [])) = Resolved Undefined"
    by blast
  from a b c d t1 t2 show ?thesis by blast
qed

section \<open>Pending intents\<close>







section \<open>What \<open>loadSourceMaps\<close> awaits\<close>

lemma registrations_append:
  "registrations (xs @ ys) = registrations xs @ registrations ys"
  by (induction xs rule: registrations.induct) simp_all

lemma awaitedThunks_append:
  "awaitedThunks (xs @ ys) = awaitedThunks xs @ awaitedThunks ys"
  by (induction xs rule: awaitedThunks.induct) simp_all

lemma awaitedEffects_append:
  "awaitedEffects (xs @ ys) = awaitedEffects xs @ awaitedEffects ys"
  by (simp add: awaitedEffects_def)

lemma loadSourceMap_outcome:
  "snd (snd (loadSourceMap e k sourceId st)) = Resolved Undefined
   \<or> snd (snd (loadSourceMap e k sourceId st)) = Rejected ''TypeError''"
  by (simp add: loadSourceMap_def Let_def case_prod_beta split: option.splits sum.splits)

lemma loadSourceMap_awaits_no_registration:
  "registrations (awaitedEffects (fst (loadSourceMap e k sourceId st))) = []"
  by (simp add: loadSourceMap_def awaitedEffects_def Let_def case_prod_beta
      split: option.splits sum.splits)

lemma flatten_undefined: "flatten (replicate k Undefined) = replicate k None"
  by (induction k) simp_all

lemma filterSources_absent: "filterSources e st (replicate k None) = []"
  by (induction k) simp_all

lemma newSources_absent:
  "newSources e (Suc n) (replicate k None) st = ([], st, Resolved Undefined)"
  by (simp add: newSourcesBody_def filterSources_absent)

lemma newSources_absent_events:
  "fst (newSources e n (replicate k None) st) = []"
  by (cases n) (simp_all add: newSourcesBody_def filterSources_absent)

lemma promiseAll_loads:
  "promiseAll (snd (snd (dispatchLoadSourceMap e k sources st))) = Resolved vs
   \<Longrightarrow> vs = replicate (length sources) Undefined"
proof (induction sources arbitrary: st vs)
  case Nil
  then show ?case by simp
next
  case (Cons s sources)
  let ?l = "loadSourceMap e k (id_src s) st"
  let ?outs = "snd (snd (dispatchLoadSourceMap e k sources (fst (snd ?l))))"
  have p: "promiseAll (snd (snd ?l) # ?outs) = Resolved vs"
    using Cons.prems by (simp add: Let_def case_prod_beta)
  from loadSourceMap_outcome[of e k "id_src s" st]
  have o: "snd (snd ?l) = Resolved Undefined"
    using p by auto
  from p o obtain ws where ws: "promiseAll ?outs = Resolved ws" "vs = Undefined # ws"
    by (auto split: outcome.splits)
  from Cons.IH[OF ws(1)] ws(2) show ?case by simp
qed


lemma dispatchLoadSourceMap_thunks:
  "awaitedThunks (fst (dispatchLoadSourceMap e k sources st)) =
     map (\<lambda>s. LoadSourceMap (id_src s)) sources"
  by (induction sources arbitrary: st) (simp_all add: Let_def case_prod_beta)

lemma dispatchLoadSourceMap_awaits_no_registration:
  "registrations (awaitedEffects (fst (dispatchLoadSourceMap e k sources st))) = []"
proof (induction sources arbitrary: st)
  case Nil
  then show ?case by (simp add: awaitedEffects_def)
next
  case (Cons s sources)
  let ?l = "loadSourceMap e k (id_src s) st"
  have "awaitedEffects (fst (dispatchLoadSourceMap e k (s # sources) st)) =
          awaitedEffects (fst ?l)
          @ awaitedEffects (fst (dispatchLoadSourceMap e k sources (fst (snd ?l))))"
    by (simp add: Let_def case_prod_beta awaitedEffects_def)
  then show ?case
    by (simp add: registrations_append loadSourceMap_awaits_no_registration Cons.IH)
qed

lemma loadSourceMaps_resolved:
  assumes "dispatchLoadSourceMap e (newSources e (Suc n)) sources st = (loads, st1, outs)"
      and "promiseAll outs = Resolved vs"
  shows "flatten vs = replicate (length sources) None"
    and "loadSourceMaps e (newSources e (Suc n)) sources st =
           (loads @ [Thunk Awaited (NewSources (replicate (length sources) None)) []
                       (Resolved Undefined)],
            st1, Resolved Undefined)"
proof -
  from promiseAll_loads[of e "newSources e (Suc n)" sources st vs] assms
  have vs: "vs = replicate (length sources) Undefined" by simp
  then show f: "flatten vs = replicate (length sources) None"
    by (simp add: flatten_undefined)
  show "loadSourceMaps e (newSources e (Suc n)) sources st =
           (loads @ [Thunk Awaited (NewSources (replicate (length sources) None)) []
                       (Resolved Undefined)],
            st1, Resolved Undefined)"
    unfolding loadSourceMaps_def
    using assms f newSources_absent[of e n "length sources" st1]
    by (simp add: Let_def del: newSources.simps)
qed

lemma loadSourceMaps_awaits_no_registration:
  "registrations (awaitedEffects (fst (loadSourceMaps e (newSources e n) sources st))) = []"
proof -
  obtain loads st1 outs where d:
    "dispatchLoadSourceMap e (newSources e n) sources st = (loads, st1, outs)"
    by (cases "dispatchLoadSourceMap e (newSources e n) sources st")
  have l: "registrations (awaitedEffects loads) = []"
    using dispatchLoadSourceMap_awaits_no_registration[of e "newSources e n" sources st] d
    by simp
  show ?thesis
  proof (cases "promiseAll outs")
    case (Resolved vs)
    from promiseAll_loads[of e "newSources e n" sources st vs] d Resolved
    have "flatten vs = replicate (length sources) None"
      by (simp add: flatten_undefined)
    then have "fst (loadSourceMaps e (newSources e n) sources st) =
            loads @ [Thunk Awaited (NewSources (replicate (length sources) None)) []
                       (snd (snd (newSources e n (replicate (length sources) None) st1)))]"
      unfolding loadSourceMaps_def
      using d Resolved newSources_absent_events[of e n "length sources" st1]
      by (simp add: Let_def case_prod_beta)
    then show ?thesis
      using l by (simp add: awaitedEffects_append registrations_append)
        (simp add: awaitedEffects_def)
  next
    case (Rejected err)
    then show ?thesis
      using d l by (simp add: loadSourceMaps_def)
  next
    case Pending
    then show ?thesis
      using d l by (simp add: loadSourceMaps_def)
  qed
qed

lemma loadSourceMap_registers_only_detached:
  assumes "registrations (allEffects (fst (loadSourceMap e k sourceId st))) \<noteq> []"
  shows "\<exists>source us body out.
           fst (loadSourceMap e k sourceId st) =
             [GetOriginalURLs source,
              Thunk Detached
                (NewSources (map Some (map (\<lambda>u. createOriginalSource e u source) us)))
                body out]"
  using assms
  by (auto simp: loadSourceMap_def allEffects_def Let_def case_prod_beta
      split: option.splits sum.splits if_splits)

text \<open>
  C9. Every branch of \<open>loadSourceMap\<close> returns \<open>undefined\<close> (or throws, when the source is
  not in the store). So when all the thunks \<open>loadSourceMaps\<close> started are fulfilled, the
  flattened list is one absent entry per source, the recursive \<open>newSources\<close> call on it
  does nothing (no event, the state as it was, fulfilled), and \<open>loadSourceMaps\<close> is
  fulfilled; nothing that \<open>loadSourceMaps\<close> awaits contains an \<open>ADD_SOURCES\<close>. Whenever a
  run of \<open>loadSourceMap\<close> leads to an \<open>ADD_SOURCES\<close>, it does so in the \<open>newSources\<close> thunk
  that its last branch dispatches without \<open>await\<close> on the original sources it built.
\<close>

theorem loadSourceMaps_recursion_gets_absent_entries:
  "(\<forall>v. snd (snd (loadSourceMap e k sourceId st)) = Resolved v \<longrightarrow> v = Undefined)
   \<and> (\<forall>loads st1 outs vs.
         dispatchLoadSourceMap e (newSources e (Suc n)) sources st = (loads, st1, outs)
         \<and> promiseAll outs = Resolved vs
         \<longrightarrow> flatten vs = replicate (length sources) None
           \<and> loadSourceMaps e (newSources e (Suc n)) sources st =
               (loads @ [Thunk Awaited (NewSources (replicate (length sources) None)) []
                           (Resolved Undefined)],
                st1, Resolved Undefined))
   \<and> newSources e (Suc n) (replicate m None) st = ([], st, Resolved Undefined)
   \<and> registrations
        (awaitedEffects (fst (loadSourceMaps e (newSources e (Suc n)) sources st))) = []
   \<and> (registrations (allEffects (fst (loadSourceMap e k sourceId st))) \<noteq> []
        \<longrightarrow> (\<exists>source us body out.
               fst (loadSourceMap e k sourceId st) =
                 [GetOriginalURLs source,
                  Thunk Detached
                    (NewSources (map Some (map (\<lambda>u. createOriginalSource e u source) us)))
                    body out]))"
proof (intro conjI allI impI)
  fix v
  assume "snd (snd (loadSourceMap e k sourceId st)) = Resolved v"
  with loadSourceMap_outcome[of e k sourceId st] show "v = Undefined" by auto
next
  fix loads st1 outs vs
  assume h: "dispatchLoadSourceMap e (newSources e (Suc n)) sources st = (loads, st1, outs)
             \<and> promiseAll outs = Resolved vs"
  from h have d: "dispatchLoadSourceMap e (newSources e (Suc n)) sources st = (loads, st1, outs)"
    and p: "promiseAll outs = Resolved vs" by blast+
  show "flatten vs = replicate (length sources) None"
    by (rule loadSourceMaps_resolved(1)[OF d p])
  show "loadSourceMaps e (newSources e (Suc n)) sources st =
          (loads @ [Thunk Awaited (NewSources (replicate (length sources) None)) []
                      (Resolved Undefined)],
           st1, Resolved Undefined)"
    by (rule loadSourceMaps_resolved(2)[OF d p])
next
  show "newSources e (Suc n) (replicate m None) st = ([], st, Resolved Undefined)"
    by (rule newSources_absent)
next
  show "registrations
          (awaitedEffects (fst (loadSourceMaps e (newSources e (Suc n)) sources st))) = []"
    by (rule loadSourceMaps_awaits_no_registration)
next
  assume "registrations (allEffects (fst (loadSourceMap e k sourceId st))) \<noteq> []"
  then show "\<exists>source us body out.
               fst (loadSourceMap e k sourceId st) =
                 [GetOriginalURLs source,
                  Thunk Detached
                    (NewSources (map Some (map (\<lambda>u. createOriginalSource e u source) us)))
                    body out]"
    by (rule loadSourceMap_registers_only_detached)
qed

theorem loadSourceMaps_recursion_gets_absent_entries_witness:
  "snd (snd (loadSourceMap (registryEnv None [] resolvesToOrig)
               (newSources (registryEnv None [] resolvesToOrig) (Suc 1)) ''g'' [bundleG]))
     = Resolved Undefined
   \<and> snd (snd (loadSourceMaps (registryEnv None [] resolvesToOrig)
                 (newSources (registryEnv None [] resolvesToOrig) (Suc 1)) [bundleG] [bundleG]))
       = Resolved Undefined
   \<and> awaitedThunks (fst (loadSourceMaps (registryEnv None [] resolvesToOrig)
                 (newSources (registryEnv None [] resolvesToOrig) (Suc 1)) [bundleG] [bundleG]))
       = [LoadSourceMap ''g'', NewSources [None]]
   \<and> newSources (registryEnv None [] resolvesToOrig) (Suc 1) [None] [bundleG]
       = ([], [bundleG], Resolved Undefined)
   \<and> registrations (awaitedEffects (fst (loadSourceMaps (registryEnv None [] resolvesToOrig)
                 (newSources (registryEnv None [] resolvesToOrig) (Suc 1)) [bundleG] [bundleG])))
       = []
   \<and> registrations (allEffects (fst (loadSourceMap (registryEnv None [] resolvesToOrig)
               (newSources (registryEnv None [] resolvesToOrig) (Suc 1)) ''g'' [bundleG])))
       = [[origOfBundle]]
   \<and> (\<exists>source us body out.
         fst (loadSourceMap (registryEnv None [] resolvesToOrig)
               (newSources (registryEnv None [] resolvesToOrig) (Suc 1)) ''g'' [bundleG]) =
           [GetOriginalURLs source,
            Thunk Detached
              (NewSources (map Some (map (\<lambda>u. createOriginalSource
                                              (registryEnv None [] resolvesToOrig) u source) us)))
              body out])"
proof -
  let ?e = "registryEnv None [] resolvesToOrig"
  let ?k = "newSources ?e (Suc 1)"
  note t = loadSourceMaps_recursion_gets_absent_entries
             [of ?e ?k "''g''" "[bundleG]" 1 "[bundleG]" 1]
  obtain loads st1 outs where d: "dispatchLoadSourceMap ?e ?k [bundleG] [bundleG] = (loads, st1, outs)"
    by (cases "dispatchLoadSourceMap ?e ?k [bundleG] [bundleG]")
  have "promiseAll (snd (snd (dispatchLoadSourceMap ?e ?k [bundleG] [bundleG]))) = Resolved [Undefined]"
    by code_simp
  with d have p: "promiseAll outs = Resolved [Undefined]" by simp
  have w1: "snd (snd (loadSourceMap ?e ?k ''g'' [bundleG])) = Resolved Undefined"
    by code_simp
  from t d p have m: "loadSourceMaps ?e ?k [bundleG] [bundleG] =
      (loads @ [Thunk Awaited (NewSources (replicate (length [bundleG]) None)) []
                  (Resolved Undefined)], st1, Resolved Undefined)"
    by blast
  then have w2: "snd (snd (loadSourceMaps ?e ?k [bundleG] [bundleG])) = Resolved Undefined"
    by simp
  have "awaitedThunks loads = [LoadSourceMap ''g'']"
    using dispatchLoadSourceMap_thunks[of ?e ?k "[bundleG]" "[bundleG]"] d
    by (simp add: bundleG_def)
  with m have w3: "awaitedThunks (fst (loadSourceMaps ?e ?k [bundleG] [bundleG]))
       = [LoadSourceMap ''g'', NewSources [None]]"
    by (simp add: awaitedThunks_append)
  from t have "newSources ?e (Suc 1) (replicate 1 None) [bundleG] = ([], [bundleG], Resolved Undefined)"
    by blast
  then have w4: "newSources ?e (Suc 1) [None] [bundleG] = ([], [bundleG], Resolved Undefined)"
    by simp
  from t have w5: "registrations (awaitedEffects (fst (loadSourceMaps ?e ?k [bundleG] [bundleG]))) = []"
    by blast
  have w6: "registrations (allEffects (fst (loadSourceMap ?e ?k ''g'' [bundleG]))) = [[origOfBundle]]"
    by code_simp
  then have "registrations (allEffects (fst (loadSourceMap ?e ?k ''g'' [bundleG]))) \<noteq> []"
    by simp
  with t have w7: "\<exists>source us body out.
         fst (loadSourceMap ?e ?k ''g'' [bundleG]) =
           [GetOriginalURLs source,
            Thunk Detached
              (NewSources (map Some (map (\<lambda>u. createOriginalSource ?e u source) us)))
              body out]"
    by blast
  from w1 w2 w3 w4 w5 w6 w7 show ?thesis by blast
qed

section \<open>\<open>newSource\<close>\<close>

lemma returnUndefined_idem: "returnUndefined (returnUndefined out) = returnUndefined out"
  by (cases out) simp_all

lemma newSources_returns_undefined:
  "returnUndefined (snd (snd (newSources e n sources st))) = snd (snd (newSources e n sources st))"
  by (cases n) (simp_all add: newSourcesBody_def Let_def case_prod_beta returnUndefined_idem)

text \<open>
  C10. \<open>newSource(s)\<close> is one awaited dispatch of \<open>newSources([s])\<close> and nothing else: its
  events are that one thunk, and it leaves the state, has the outcome, does the effects
  and awaits the effects of \<open>newSources([s])\<close>.
\<close>

theorem newSource_is_singleton_newSources:
  "fst (newSource e n source st) =
     [Thunk Awaited (NewSources [source]) (fst (newSources e n [source] st))
        (snd (snd (newSources e n [source] st)))]
   \<and> snd (newSource e n source st) = snd (newSources e n [source] st)
   \<and> allEffects (fst (newSource e n source st)) = allEffects (fst (newSources e n [source] st))
   \<and> awaitedEffects (fst (newSource e n source st)) =
       awaitedEffects (fst (newSources e n [source] st))"
proof -
  have ev: "fst (newSource e n source st) =
     [Thunk Awaited (NewSources [source]) (fst (newSources e n [source] st))
        (snd (snd (newSources e n [source] st)))]"
    by (simp add: newSource_def case_prod_beta)
  have "snd (newSource e n source st) =
          (fst (snd (newSources e n [source] st)),
           returnUndefined (snd (snd (newSources e n [source] st))))"
    by (simp add: newSource_def case_prod_beta)
  then have st: "snd (newSource e n source st) = snd (newSources e n [source] st)"
    by (simp add: newSources_returns_undefined)
  from ev st show ?thesis
    by (simp add: allEffects_def awaitedEffects_def)
qed

theorem newSource_is_singleton_newSources_witness:
  "snd (newSource (registryEnv None [] resolvesToOrig) 3 (Some bundleG) [])
     = ([bundleG, origOfBundle], Resolved Undefined)
   \<and> snd (newSource (registryEnv None [] resolvesToOrig) 3 (Some bundleG) [])
     = snd (newSources (registryEnv None [] resolvesToOrig) 3 [Some bundleG] [])
   \<and> registrations (allEffects (fst (newSource (registryEnv None [] resolvesToOrig) 3 (Some bundleG) [])))
     = [[bundleG], [origOfBundle]]
   \<and> allEffects (fst (newSource (registryEnv None [] resolvesToOrig) 3 (Some bundleG) []))
     = allEffects (fst (newSources (registryEnv None [] resolvesToOrig) 3 [Some bundleG] []))"
proof -
  let ?e = "registryEnv None [] resolvesToOrig"
  note t = newSource_is_singleton_newSources[of ?e 3 "Some bundleG" "[]"]
  have a: "snd (newSources ?e 3 [Some bundleG] []) = ([bundleG, origOfBundle], Resolved Undefined)"
    by code_simp
  have b: "registrations (allEffects (fst (newSources ?e 3 [Some bundleG] [])))
             = [[bundleG], [origOfBundle]]"
    by code_simp
  from t have c: "snd (newSource ?e 3 (Some bundleG) []) = snd (newSources ?e 3 [Some bundleG] [])"
    and d: "allEffects (fst (newSource ?e 3 (Some bundleG) []))
             = allEffects (fst (newSources ?e 3 [Some bundleG] []))"
    by blast+
  from a b c d show ?thesis by simp
qed

section \<open>Original sources\<close>

text \<open>
  C5 (as stated). The bundle is a generated source with a source map, the resolver returns
  one URL, and the original source of that URL is already in the registry (loaded). The
  claim has one original source registered, with \<open>loadedState\<close> unloaded; the run
  registers none and leaves the registry as it was.
\<close>

theorem loadSourceMap_known_original_counterexample:
  "getSource (registryEnv None [] resolvesToOrig)
      [bundleG, origOfBundle\<lparr>loadedState := Loaded\<rparr>] ''g'' = Some bundleG
   \<and> isGeneratedId (registryEnv None [] resolvesToOrig) (id_src bundleG)
   \<and> truthy (sourceMapURL bundleG)
   \<and> getOriginalURLs (registryEnv None [] resolvesToOrig) bundleG = Inr (Some [''orig.js''])
   \<and> registrations (allEffects (fst (loadSourceMap (registryEnv None [] resolvesToOrig)
         (newSources (registryEnv None [] resolvesToOrig) 2) ''g''
         [bundleG, origOfBundle\<lparr>loadedState := Loaded\<rparr>]))) = []
   \<and> fst (snd (loadSourceMap (registryEnv None [] resolvesToOrig)
         (newSources (registryEnv None [] resolvesToOrig) 2) ''g''
         [bundleG, origOfBundle\<lparr>loadedState := Loaded\<rparr>]))
       = [bundleG, origOfBundle\<lparr>loadedState := Loaded\<rparr>]"
  by code_simp

lemma loadSourceMap_success:
  assumes "getSource e st sourceId = Some source"
      and "isGeneratedId e (id_src source)" and "truthy (sourceMapURL source)"
      and "getOriginalURLs e source = Inr (Some urls)"
  shows "loadSourceMap e k sourceId st =
           ([GetOriginalURLs source,
             Thunk Detached
               (NewSources (map Some (map (\<lambda>u. createOriginalSource e u source) urls)))
               (fst (k (map Some (map (\<lambda>u. createOriginalSource e u source) urls)) st))
               (snd (snd (k (map Some (map (\<lambda>u. createOriginalSource e u source) urls)) st)))],
            fst (snd (k (map Some (map (\<lambda>u. createOriginalSource e u source) urls)) st)),
            Resolved Undefined)"
  using assms by (simp add: loadSourceMap_def Let_def case_prod_beta)

lemma filterSources_all_new:
  "\<forall>s\<in>set ss. getSource e st (id_src s) = None \<Longrightarrow> filterSources e st (map Some ss) = ss"
  by (induction ss) simp_all

text \<open>
  C5 (amended). For a generated source with a \<open>sourceMapURL\<close> whose resolver returns a
  list of URLs, \<open>loadSourceMap\<close> builds one original source per URL, in order, with the id
  \<open>generatedToOriginalId(source.id, url)\<close>, \<open>loadedState\<close> unloaded and \<open>isWasm\<close> false,
  and hands them all to one \<open>newSources\<close> dispatch that it does not await; its own body
  dispatches no \<open>UPDATE_SOURCE\<close>. That \<open>newSources\<close> registers, with one \<open>ADD_SOURCES\<close>,
  those whose id is not yet in the registry: all of them when none is known, and nothing
  at all when all are known.
\<close>

theorem loadSourceMap_hands_originals_to_newSources:
  assumes "getSource e st sourceId = Some source"
      and "isGeneratedId e (id_src source)" and "truthy (sourceMapURL source)"
      and "getOriginalURLs e source = Inr (Some urls)"
  shows "\<exists>originals body st' out.
           originals = map (\<lambda>u. createOriginalSource e u source) urls
         \<and> loadSourceMap e (newSources e (Suc n)) sourceId st =
             ([GetOriginalURLs source, Thunk Detached (NewSources (map Some originals)) body out],
              st', Resolved Undefined)
         \<and> dispatched (fst (loadSourceMap e (newSources e (Suc n)) sourceId st)) = []
         \<and> map id_src originals = map (generatedToOriginalId e (id_src source)) urls
         \<and> map url originals = map Some urls
         \<and> (\<forall>s\<in>set originals. loadedState s = Unloaded \<and> \<not> isWasm s)
         \<and> (filterSources e st (map Some originals) = [] \<longrightarrow> body = [] \<and> st' = st)
         \<and> (filterSources e st (map Some originals) \<noteq> [] \<longrightarrow>
              (\<exists>rest. body = Dispatch (ADD_SOURCES (filterSources e st (map Some originals))) # rest
                     \<and> dispatched rest = []))
         \<and> ((\<forall>s\<in>set originals. getSource e st (id_src s) = None) \<longrightarrow>
              filterSources e st (map Some originals) = originals)"
proof -
  let ?os = "map (\<lambda>u. createOriginalSource e u source) urls"
  let ?r = "newSources e (Suc n) (map Some ?os) st"
  have run: "loadSourceMap e (newSources e (Suc n)) sourceId st =
           ([GetOriginalURLs source, Thunk Detached (NewSources (map Some ?os)) (fst ?r) (snd (snd ?r))],
            fst (snd ?r), Resolved Undefined)"
    by (rule loadSourceMap_success[OF assms])
  have d: "dispatched (fst (loadSourceMap e (newSources e (Suc n)) sourceId st)) = []"
    unfolding run by simp
  have ids: "map id_src ?os = map (generatedToOriginalId e (id_src source)) urls"
    by (simp add: createOriginalSource_def)
  have urls: "map url ?os = map Some urls"
    by (simp add: createOriginalSource_def)
  have fresh: "\<forall>s\<in>set ?os. loadedState s = Unloaded \<and> \<not> isWasm s"
    by (auto simp: createOriginalSource_def)
  have none: "filterSources e st (map Some ?os) = [] \<longrightarrow> fst ?r = [] \<and> fst (snd ?r) = st"
    using newSources_empty[of e st "map Some ?os" n] by auto
  have some: "filterSources e st (map Some ?os) \<noteq> [] \<longrightarrow>
              (\<exists>rest. fst ?r = Dispatch (ADD_SOURCES (filterSources e st (map Some ?os))) # rest
                     \<and> dispatched rest = [])"
    using newSources_nonempty[of e st "map Some ?os" n] by auto
  have allnew: "(\<forall>s\<in>set ?os. getSource e st (id_src s) = None) \<longrightarrow>
              filterSources e st (map Some ?os) = ?os"
    using filterSources_all_new[of ?os e st] by blast
  from run d ids urls fresh none some allnew show ?thesis by blast
qed

theorem loadSourceMap_hands_originals_to_newSources_witness:
  "getSource (registryEnv None [] resolvesToOrig) [bundleG] ''g'' = Some bundleG
   \<and> isGeneratedId (registryEnv None [] resolvesToOrig) (id_src bundleG)
   \<and> truthy (sourceMapURL bundleG)
   \<and> getOriginalURLs (registryEnv None [] resolvesToOrig) bundleG = Inr (Some [''orig.js''])
   \<and> map (\<lambda>u. createOriginalSource (registryEnv None [] resolvesToOrig) u bundleG) [''orig.js'']
       = [origOfBundle]
   \<and> (\<exists>rest st' out.
         loadSourceMap (registryEnv None [] resolvesToOrig)
           (newSources (registryEnv None [] resolvesToOrig) (Suc 1)) ''g'' [bundleG] =
           ([GetOriginalURLs bundleG,
             Thunk Detached (NewSources [Some origOfBundle])
               (Dispatch (ADD_SOURCES [origOfBundle]) # rest) out],
            st', Resolved Undefined)
         \<and> dispatched rest = [])"
proof -
  let ?e = "registryEnv None [] resolvesToOrig"
  have a: "getSource ?e [bundleG] ''g'' = Some bundleG" by code_simp
  have b: "isGeneratedId ?e (id_src bundleG)" by code_simp
  have c: "truthy (sourceMapURL bundleG)" by code_simp
  have d: "getOriginalURLs ?e bundleG = Inr (Some [''orig.js''])" by code_simp
  have o: "map (\<lambda>u. createOriginalSource ?e u bundleG) [''orig.js''] = [origOfBundle]"
    by code_simp
  have f: "filterSources ?e [bundleG] (map Some [origOfBundle]) = [origOfBundle]"
    by code_simp
  from loadSourceMap_hands_originals_to_newSources[OF a b c d, of 1]
  obtain originals body st' out where
    os: "originals = map (\<lambda>u. createOriginalSource ?e u bundleG) [''orig.js'']"
    and run: "loadSourceMap ?e (newSources ?e (Suc 1)) ''g'' [bundleG] =
             ([GetOriginalURLs bundleG, Thunk Detached (NewSources (map Some originals)) body out],
              st', Resolved Undefined)"
    and ne: "filterSources ?e [bundleG] (map Some originals) \<noteq> [] \<longrightarrow>
              (\<exists>rest. body = Dispatch (ADD_SOURCES (filterSources ?e [bundleG] (map Some originals))) # rest
                     \<and> dispatched rest = [])"
    by blast
  from os o have os': "originals = [origOfBundle]" by simp
  from ne f obtain rest where
    body: "body = Dispatch (ADD_SOURCES [origOfBundle]) # rest" and r: "dispatched rest = []"
    unfolding os' by auto
  from run have "loadSourceMap ?e (newSources ?e (Suc 1)) ''g'' [bundleG] =
           ([GetOriginalURLs bundleG,
             Thunk Detached (NewSources [Some origOfBundle])
               (Dispatch (ADD_SOURCES [origOfBundle]) # rest) out],
            st', Resolved Undefined)"
    unfolding os' body by simp
  with r have "\<exists>rest st' out.
         loadSourceMap ?e (newSources ?e (Suc 1)) ''g'' [bundleG] =
           ([GetOriginalURLs bundleG,
             Thunk Detached (NewSources [Some origOfBundle])
               (Dispatch (ADD_SOURCES [origOfBundle]) # rest) out],
            st', Resolved Undefined)
         \<and> dispatched rest = []"
    by blast
  with a b c d o show ?thesis by blast
qed

section \<open>What the promise of \<open>newSources\<close> awaits\<close>






end
